theory Spec2Isabelle
  imports Main "HOL-Library.Char_ord" "HOL-Library.List_Lexorder"
begin

section \<open>Python values, keys and errors\<close>

text \<open>
  The module \<^verbatim>\<open>lib/sqlalchemy/engine/row.py\<close> is dynamically typed. The values it
  handles are embedded in one datatype: \<^verbatim>\<open>None\<close>, integers (unbounded, hence \<open>int\<close>),
  strings, opaque objects compared by identity (column-identity tokens; the number is the
  identity), tuples and lists. Python's \<^verbatim>\<open>==\<close> on these values is structural equality,
  so it is HOL's \<open>=\<close>. Floats, booleans and objects with user-defined comparison are
  outside the embedding.
\<close>

datatype pyval =
    PNone
  | PInt int
  | PStr string
  | PObj nat
  | PTuple "pyval list"
  | PList "pyval list"

text \<open>
  A subscription key is a value or a slice object \<^verbatim>\<open>slice(start, stop, step)\<close>, whose
  three components are integers or \<^verbatim>\<open>None\<close>.
\<close>

datatype pykey =
    KVal pyval
  | KSlice "int option" "int option" "int option"

text \<open>
  Exceptions are values. \<open>KeyError\<close> and \<open>AttributeError\<close> carry their first argument
  (\<^verbatim>\<open>e.args[0]\<close>); \<open>AmbiguousColumnName\<close> carries the key it reports; \<open>OtherError\<close>
  stands for whatever else a collaborator raises.
\<close>

datatype error =
    KeyError pyval
  | IndexError
  | TypeError
  | ValueError
  | AttributeError pyval
  | AmbiguousColumnName pyval
  | OtherError string

text \<open>The rich comparison operators of module \<^verbatim>\<open>operator\<close>.\<close>

datatype cmpop = Lt | Le | Eq | Ne | Gt | Ge

subsection \<open>Built-ins of the language used by the module\<close>

text \<open>
  \<^verbatim>\<open>hash(x)\<close> raises \<^verbatim>\<open>TypeError\<close> on a list and on a tuple that holds an unhashable
  value; a dictionary lookup hashes its key first. (Slice objects are unhashable in the
  Python versions the module targets: its slice detection relies on that.)
\<close>

fun hashable :: "pyval \<Rightarrow> bool" where
  "hashable (PList vs) = False"
| "hashable (PTuple vs) = list_all hashable vs"
| "hashable v = True"

text \<open>
  \<^verbatim>\<open>d[key]\<close> on a dictionary: \<^verbatim>\<open>TypeError\<close> for an unhashable key, \<^verbatim>\<open>KeyError(key)\<close>
  for a missing one.
\<close>

definition dict_getitem :: "(pyval \<rightharpoonup> 'a) \<Rightarrow> pykey \<Rightarrow> error + 'a" where
  "dict_getitem d key =
     (case key of
        KSlice start stop step \<Rightarrow> Inl TypeError
      | KVal k \<Rightarrow>
          if \<not> hashable k then Inl TypeError
          else (case d k of None \<Rightarrow> Inl (KeyError k) | Some v \<Rightarrow> Inr v))"

text \<open>
  The positions a slice selects in a sequence of length \<open>n\<close>, as the interpreter computes
  them: a zero step raises \<^verbatim>\<open>ValueError\<close>; negative bounds count from the end; bounds are
  clipped to the sequence.
\<close>

definition slice_clip :: "int \<Rightarrow> int \<Rightarrow> int \<Rightarrow> int" where
  "slice_clip n step i =
     (if i < 0 then (if i + n < 0 then (if step < 0 then - 1 else 0) else i + n)
      else if n \<le> i then (if step < 0 then n - 1 else n)
      else i)"

definition slice_indices :: "int \<Rightarrow> int option \<Rightarrow> int option \<Rightarrow> int option \<Rightarrow> error + int list" where
  "slice_indices n start stop step =
     (let st = (case step of None \<Rightarrow> 1 | Some s \<Rightarrow> s) in
      if st = 0 then Inl ValueError
      else
        let lo = (case start of None \<Rightarrow> (if st < 0 then n - 1 else 0)
                               | Some i \<Rightarrow> slice_clip n st i);
            hi = (case stop of None \<Rightarrow> (if st < 0 then - 1 else n)
                              | Some i \<Rightarrow> slice_clip n st i);
            len = (if st < 0 then (if hi < lo then (lo - hi - 1) div (- st) + 1 else 0)
                   else (if lo < hi then (hi - lo - 1) div st + 1 else 0))
        in Inr (map (\<lambda>k. lo + int k * st) [0..<nat len]))"

text \<open>
  \<^verbatim>\<open>t[key]\<close> on a tuple: an integer selects one element, a negative one counting from the
  end, and raises \<^verbatim>\<open>IndexError\<close> out of range; a slice gives the tuple of the selected
  elements; any other key raises \<^verbatim>\<open>TypeError\<close>.
\<close>

definition tuple_getitem :: "pyval list \<Rightarrow> pykey \<Rightarrow> error + pyval" where
  "tuple_getitem t key =
     (case key of
        KVal (PInt i) \<Rightarrow>
          (let n = int (length t); j = (if i < 0 then i + n else i)
           in if 0 \<le> j \<and> j < n then Inr (t ! nat j) else Inl IndexError)
      | KVal v \<Rightarrow> Inl TypeError
      | KSlice start stop step \<Rightarrow>
          (case slice_indices (int (length t)) start stop step of
             Inl e \<Rightarrow> Inl e
           | Inr js \<Rightarrow> Inr (PTuple (map (\<lambda>j. t ! nat j) js))))"

text \<open>
  Rich comparison. Two tuples (or two lists) are compared from the left: the first
  position where the elements differ decides, by the comparison of the two elements
  there for the ordering operators; when one sequence is a prefix of the other, the
  lengths decide. Integers are ordered by value and strings by code point; \<^verbatim>\<open>None\<close>,
  opaque objects and values of different types are not ordered (\<^verbatim>\<open>TypeError\<close>), and
  are equal only to themselves.
\<close>

fun cmp_holds :: "cmpop \<Rightarrow> ('a::linorder) \<Rightarrow> 'a \<Rightarrow> bool" where
  "cmp_holds Lt a b = (a < b)"
| "cmp_holds Le a b = (a \<le> b)"
| "cmp_holds Eq a b = (a = b)"
| "cmp_holds Ne a b = (a \<noteq> b)"
| "cmp_holds Gt a b = (b < a)"
| "cmp_holds Ge a b = (b \<le> a)"

fun unordered :: "cmpop \<Rightarrow> bool \<Rightarrow> error + bool" where
  "unordered Eq same = Inr same"
| "unordered Ne same = Inr (\<not> same)"
| "unordered op same = Inl TypeError"

fun py_richcmp :: "cmpop \<Rightarrow> pyval \<Rightarrow> pyval \<Rightarrow> error + bool"
  and seq_richcmp :: "cmpop \<Rightarrow> pyval list \<Rightarrow> pyval list \<Rightarrow> error + bool" where
  "py_richcmp op (PInt a) (PInt b) = Inr (cmp_holds op a b)"
| "py_richcmp op (PStr a) (PStr b) = Inr (cmp_holds op a b)"
| "py_richcmp op (PTuple xs) (PTuple ys) = seq_richcmp op xs ys"
| "py_richcmp op (PList xs) (PList ys) = seq_richcmp op xs ys"
| "py_richcmp op a b = unordered op (a = b)"
| "seq_richcmp op [] [] = Inr (cmp_holds op (0::nat) 0)"
| "seq_richcmp op [] (y # ys) = Inr (cmp_holds op (0::nat) 1)"
| "seq_richcmp op (x # xs) [] = Inr (cmp_holds op (1::nat) 0)"
| "seq_richcmp op (x # xs) (y # ys) =
     (if x = y then seq_richcmp op xs ys
      else (case op of Eq \<Rightarrow> Inr False | Ne \<Rightarrow> Inr True | _ \<Rightarrow> py_richcmp op x y))"

text \<open>\<^verbatim>\<open>list(x)\<close>: the elements of an iterable, \<^verbatim>\<open>TypeError\<close> for a value that is not one.\<close>

fun py_list :: "pyval \<Rightarrow> error + pyval list" where
  "py_list (PTuple xs) = Inr xs"
| "py_list (PList xs) = Inr xs"
| "py_list (PStr s) = Inr (map (\<lambda>c. PStr [c]) s)"
| "py_list v = Inl TypeError"

section \<open>The result metadata, a collaborator of the module\<close>

text \<open>
  A resolution record \<^verbatim>\<open>rec\<close> of the key map. The module reads one component,
  \<^verbatim>\<open>rec[MD_INDEX]\<close> with \<^verbatim>\<open>MD_INDEX = 0\<close>: the position in the row, or \<^verbatim>\<open>None\<close> when
  the key is ambiguous. The other components are not defined in the module; following
  the specification, where a resolution record pairs a lookup key with a position or the
  ambiguous sentinel, the record also has the lookup key it was made for.
\<close>

record md_rec =
  MD_INDEX :: "int option"
  MD_LOOKUP_KEY :: pyval

text \<open>\<^verbatim>\<open>rec[MD_INDEX]\<close> as a Python value.\<close>

fun index_val :: "int option \<Rightarrow> pyval" where
  "index_val None = PNone"
| "index_val (Some i) = PInt i"

text \<open>
  The class of the metadata object \<^verbatim>\<open>_parent\<close> is defined in another module. A row uses
  its attributes \<^verbatim>\<open>keys\<close> and \<^verbatim>\<open>_keymap\<close> and calls five of its methods, so the metadata
  is a record of these, and every statement below holds for whatever the methods do.
  A method that is called for its effect returns \<open>Some e\<close> when it raises \<open>e\<close> and
  \<open>None\<close> when it returns. \<^verbatim>\<open>_contains(key, row)\<close> receives the row as its storage and
  its key map (the row's \<^verbatim>\<open>_parent\<close> is the receiver itself).
\<close>

record metadata =
  md_keys :: "pyval list"
  md_keymap :: "pyval \<rightharpoonup> md_rec"
  md_key_fallback :: "pykey \<Rightarrow> error + md_rec"
  md_raise_for_ambiguous_column_name :: "md_rec \<Rightarrow> error option"
  md_warn_for_nonint :: "pykey \<Rightarrow> error option"
  md_has_key :: "pyval \<Rightarrow> bool"
  md_contains :: "pyval \<Rightarrow> pyval list \<Rightarrow> (pyval \<rightharpoonup> md_rec) \<Rightarrow> bool"

section \<open>BaseRow\<close>

text \<open>
  The pure Python classes are embedded (the module prefers a C extension when one is
  installed). An object of class \<^verbatim>\<open>Row\<close> or \<^verbatim>\<open>LegacyRow\<close> has the three slots of
  \<^verbatim>\<open>BaseRow\<close>.
\<close>

datatype row_class = Row | LegacyRow

record row =
  row_class :: row_class
  row_parent :: metadata
  row_data :: "pyval list"
  row_keymap :: "pyval \<rightharpoonup> md_rec"

text \<open>A processor is a callable that converts one raw value, and may raise.\<close>

type_synonym processor = "pyval \<Rightarrow> error + pyval"

text \<open>
  The list comprehension of \<^verbatim>\<open>__init__\<close> over \<^verbatim>\<open>zip(processors, data)\<close>:
  \<^verbatim>\<open>proc(value) if proc else value\<close>, left to right, stopping at the first exception.
\<close>

fun process_values :: "(processor option \<times> pyval) list \<Rightarrow> error + pyval list" where
  "process_values [] = Inr []"
| "process_values ((proc, v) # rest) =
     (case (case proc of None \<Rightarrow> Inr v | Some f \<Rightarrow> f v) of
        Inl e \<Rightarrow> Inl e
      | Inr v' \<Rightarrow>
          (case process_values rest of
             Inl e \<Rightarrow> Inl e
           | Inr vs \<Rightarrow> Inr (v' # vs)))"

definition BaseRow_init ::
  "row_class \<Rightarrow> metadata \<Rightarrow> processor option list \<Rightarrow> (pyval \<rightharpoonup> md_rec) \<Rightarrow> pyval list
     \<Rightarrow> error + row" where
  "BaseRow_init cls parent processors keymap data =
     (case process_values (zip processors data) of
        Inl e \<Rightarrow> Inl e
      | Inr vs \<Rightarrow>
          Inr \<lparr>row_class = cls, row_parent = parent, row_data = vs, row_keymap = keymap\<rparr>)"

definition BaseRow_iter :: "row \<Rightarrow> pyval list" where
  "BaseRow_iter self = row_data self"

definition values_impl :: "row \<Rightarrow> pyval list" where
  "values_impl self = BaseRow_iter self"

definition BaseRow_len :: "row \<Rightarrow> nat" where
  "BaseRow_len self = length (row_data self)"

text \<open>
  \<^verbatim>\<open>__hash__\<close> is \<^verbatim>\<open>hash(self._data)\<close>. The built-in \<^verbatim>\<open>hash\<close> is a parameter: a function
  of the value that may raise.
\<close>

definition BaseRow_hash :: "(pyval \<Rightarrow> error + int) \<Rightarrow> row \<Rightarrow> error + int" where
  "BaseRow_hash hash self = hash (PTuple (row_data self))"

text \<open>
  Calls of \<^verbatim>\<open>_parent._warn_for_nonint\<close> are observable: a lookup returns the list of
  these calls together with its result or exception.
\<close>

datatype event = Warn_for_nonint pykey

fun isinstance_slice :: "pykey \<Rightarrow> bool" where
  "isinstance_slice (KSlice start stop step) = True"
| "isinstance_slice (KVal v) = False"

fun isinstance_int :: "pykey \<Rightarrow> bool" where
  "isinstance_int (KVal (PInt i)) = True"
| "isinstance_int key = False"

text \<open>
  The \<^verbatim>\<open>try\<close> statement of \<^verbatim>\<open>_subscript_impl\<close>: \<open>Inr rec\<close> when it binds \<^verbatim>\<open>rec\<close>, \<open>Inl\<close>
  of the result or exception when the method is left there. The handler of \<^verbatim>\<open>TypeError\<close>
  covers the lookup in \<^verbatim>\<open>_keymap\<close> only, not the call of \<^verbatim>\<open>_key_fallback\<close>.
\<close>

definition subscript_try :: "row \<Rightarrow> pykey \<Rightarrow> (error + pyval) + md_rec" where
  "subscript_try self key =
     (case dict_getitem (row_keymap self) key of
        Inr rec \<Rightarrow> Inr rec
      | Inl (KeyError k) \<Rightarrow>
          (case md_key_fallback (row_parent self) key of
             Inl e \<Rightarrow> Inl (Inl e)
           | Inr rec \<Rightarrow> Inr rec)
      | Inl TypeError \<Rightarrow>
          (if isinstance_slice key then Inl (tuple_getitem (row_data self) key)
           else Inl (Inl TypeError))
      | Inl e \<Rightarrow> Inl (Inl e))"

definition subscript_impl :: "row \<Rightarrow> pykey \<Rightarrow> bool \<Rightarrow> event list \<times> (error + pyval)" where
  "subscript_impl self key ismapping =
     (case subscript_try self key of
        Inl outcome \<Rightarrow> ([], outcome)
      | Inr rec \<Rightarrow>
          (let mdindex = MD_INDEX rec;
               (events, raised) =
                 (if mdindex = None then
                    ([], md_raise_for_ambiguous_column_name (row_parent self) rec)
                  else if \<not> ismapping \<and> KVal (index_val mdindex) \<noteq> key
                          \<and> \<not> isinstance_int key then
                    ([Warn_for_nonint key], md_warn_for_nonint (row_parent self) key)
                  else ([], None))
           in case raised of
                Some e \<Rightarrow> (events, Inl e)
              | None \<Rightarrow> (events, tuple_getitem (row_data self) (KVal (index_val mdindex)))))"

definition get_by_key_impl :: "row \<Rightarrow> pykey \<Rightarrow> event list \<times> (error + pyval)" where
  "get_by_key_impl self key = subscript_impl self key False"

definition get_by_key_impl_mapping :: "row \<Rightarrow> pykey \<Rightarrow> event list \<times> (error + pyval)" where
  "get_by_key_impl_mapping self key = subscript_impl self key True"

text \<open>
  \<^verbatim>\<open>__getattr__\<close>, which the interpreter calls with the name of an attribute that the
  object and its class do not have: \<^verbatim>\<open>KeyError\<close> becomes \<^verbatim>\<open>AttributeError(e.args[0])\<close>.
\<close>

definition BaseRow_getattr :: "row \<Rightarrow> string \<Rightarrow> event list \<times> (error + pyval)" where
  "BaseRow_getattr self name =
     (case get_by_key_impl_mapping self (KVal (PStr name)) of
        (events, Inl (KeyError a)) \<Rightarrow> (events, Inl (AttributeError a))
      | (events, outcome) \<Rightarrow> (events, outcome))"

section \<open>Row\<close>

text \<open>A \<^verbatim>\<open>RowMapping\<close> holds its row; a \<^verbatim>\<open>ROMappingView\<close> its mapping and a list.\<close>

record rowmapping =
  mapping_row :: row

record view =
  view_mapping :: rowmapping
  view_items :: "pyval list"

definition Row_mapping :: "row \<Rightarrow> rowmapping" where
  "Row_mapping self = \<lparr>mapping_row = self\<rparr>"

definition Row_contains :: "row \<Rightarrow> pyval \<Rightarrow> bool" where
  "Row_contains self key = (key \<in> set (row_data self))"

definition Row_getitem :: "row \<Rightarrow> pykey \<Rightarrow> error + pyval" where
  "Row_getitem self key = tuple_getitem (row_data self) key"

text \<open>
  The state of \<^verbatim>\<open>__getstate__\<close> is a dictionary with the two entries \<^verbatim>\<open>"_parent"\<close> and
  \<^verbatim>\<open>"_data"\<close>. \<^verbatim>\<open>rowproxy_reconstructor\<close> makes an object of class \<^verbatim>\<open>cls\<close> with no
  slot set and calls \<^verbatim>\<open>__setstate__\<close>, which sets the three of them.
\<close>

record state =
  state_parent :: metadata
  state_data :: "pyval list"

definition Row_getstate :: "row \<Rightarrow> state" where
  "Row_getstate self = \<lparr>state_parent = row_parent self, state_data = row_data self\<rparr>"

definition Row_setstate :: "row_class \<Rightarrow> state \<Rightarrow> row" where
  "Row_setstate cls st =
     (let parent = state_parent st
      in \<lparr>row_class = cls, row_parent = parent, row_data = state_data st,
          row_keymap = md_keymap parent\<rparr>)"

definition rowproxy_reconstructor :: "row_class \<Rightarrow> state \<Rightarrow> row" where
  "rowproxy_reconstructor cls st = Row_setstate cls st"

text \<open>
  \<^verbatim>\<open>__reduce__\<close> returns \<^verbatim>\<open>rowproxy_reconstructor\<close> with its two arguments; unpickling
  applies the one to the others.
\<close>

definition BaseRow_reduce :: "row \<Rightarrow> row_class \<times> state" where
  "BaseRow_reduce self = (row_class self, Row_getstate self)"

definition unpickle :: "row_class \<times> state \<Rightarrow> row" where
  "unpickle reduced = rowproxy_reconstructor (fst reduced) (snd reduced)"









definition Row_keys :: "row \<Rightarrow> pyval list" where
  "Row_keys self = filter (\<lambda>k. k \<noteq> PNone) (md_keys (row_parent self))"

definition Row_fields :: "row \<Rightarrow> pyval" where
  "Row_fields self = PTuple (filter (\<lambda>k. k \<noteq> PNone) (md_keys (row_parent self)))"

section \<open>LegacyRow\<close>

definition LegacyRow_contains :: "row \<Rightarrow> pyval \<Rightarrow> bool" where
  "LegacyRow_contains self key =
     md_contains (row_parent self) key (row_data self) (row_keymap self)"

definition LegacyRow_getitem :: "row \<Rightarrow> pykey \<Rightarrow> event list \<times> (error + pyval)" where
  "LegacyRow_getitem self key = get_by_key_impl self key"

definition LegacyRow_has_key :: "row \<Rightarrow> pyval \<Rightarrow> bool" where
  "LegacyRow_has_key self key = md_has_key (row_parent self) key"

definition LegacyRow_values :: "row \<Rightarrow> pyval list" where
  "LegacyRow_values self = values_impl self"

text \<open>
  \<^verbatim>\<open>key in row\<close> and \<^verbatim>\<open>row[key]\<close> call the method of the row's class: \<^verbatim>\<open>LegacyRow\<close>
  overrides both methods of \<^verbatim>\<open>Row\<close>.
\<close>

definition row_contains :: "row \<Rightarrow> pyval \<Rightarrow> bool" where
  "row_contains self key =
     (case row_class self of
        Row \<Rightarrow> Row_contains self key
      | LegacyRow \<Rightarrow> LegacyRow_contains self key)"

definition row_getitem :: "row \<Rightarrow> pykey \<Rightarrow> event list \<times> (error + pyval)" where
  "row_getitem self key =
     (case row_class self of
        Row \<Rightarrow> ([], Row_getitem self key)
      | LegacyRow \<Rightarrow> LegacyRow_getitem self key)"

section \<open>ROMappingView and RowMapping\<close>

definition ROMappingView_init :: "rowmapping \<Rightarrow> pyval list \<Rightarrow> view" where
  "ROMappingView_init mapping items = \<lparr>view_mapping = mapping, view_items = items\<rparr>"

definition ROMappingView_len :: "view \<Rightarrow> nat" where
  "ROMappingView_len self = length (view_items self)"

definition ROMappingView_iter :: "view \<Rightarrow> pyval list" where
  "ROMappingView_iter self = view_items self"

definition ROMappingView_contains :: "view \<Rightarrow> pyval \<Rightarrow> bool" where
  "ROMappingView_contains self item = (item \<in> set (view_items self))"

text \<open>
  The other operand of a view's \<^verbatim>\<open>==\<close>: a view, a row, or a value of the embedding, which
  \<^verbatim>\<open>list(other)\<close> iterates.
\<close>

datatype iterable = IView view | IRow row | IVal pyval

fun list_of :: "iterable \<Rightarrow> error + pyval list" where
  "list_of (IView v) = Inr (ROMappingView_iter v)"
| "list_of (IRow r) = Inr (BaseRow_iter r)"
| "list_of (IVal v) = py_list v"

definition ROMappingView_eq :: "view \<Rightarrow> iterable \<Rightarrow> error + bool" where
  "ROMappingView_eq self other =
     (case list_of other of
        Inl e \<Rightarrow> Inl e
      | Inr ys \<Rightarrow> Inr (ys = ROMappingView_iter self))"

definition ROMappingView_ne :: "view \<Rightarrow> iterable \<Rightarrow> error + bool" where
  "ROMappingView_ne self other =
     (case list_of other of
        Inl e \<Rightarrow> Inl e
      | Inr ys \<Rightarrow> Inr (ys \<noteq> ROMappingView_iter self))"

definition RowMapping_init :: "row \<Rightarrow> rowmapping" where
  "RowMapping_init r = \<lparr>mapping_row = r\<rparr>"

definition RowMapping_getitem :: "rowmapping \<Rightarrow> pykey \<Rightarrow> event list \<times> (error + pyval)" where
  "RowMapping_getitem self key = get_by_key_impl_mapping (mapping_row self) key"

definition RowMapping_iter :: "rowmapping \<Rightarrow> pyval list" where
  "RowMapping_iter self = filter (\<lambda>k. k \<noteq> PNone) (md_keys (row_parent (mapping_row self)))"

definition RowMapping_len :: "rowmapping \<Rightarrow> nat" where
  "RowMapping_len self = BaseRow_len (mapping_row self)"

definition RowMapping_contains :: "rowmapping \<Rightarrow> pyval \<Rightarrow> bool" where
  "RowMapping_contains self key = md_has_key (row_parent (mapping_row self)) key"

definition RowMapping_keys :: "rowmapping \<Rightarrow> view" where
  "RowMapping_keys self =
     ROMappingView_init self
       (filter (\<lambda>k. k \<noteq> PNone) (md_keys (row_parent (mapping_row self))))"

definition RowMapping_values :: "rowmapping \<Rightarrow> view" where
  "RowMapping_values self = ROMappingView_init self (values_impl (mapping_row self))"

text \<open>
  The list comprehension of \<^verbatim>\<open>items\<close>, \<^verbatim>\<open>(key, self[key])\<close> for each key of
  \<^verbatim>\<open>self.keys()\<close>: the first lookup that raises ends it.
\<close>

fun items_pairs :: "rowmapping \<Rightarrow> pyval list \<Rightarrow> error + pyval list" where
  "items_pairs self [] = Inr []"
| "items_pairs self (key # ks) =
     (case snd (RowMapping_getitem self (KVal key)) of
        Inl e \<Rightarrow> Inl e
      | Inr v \<Rightarrow>
          (case items_pairs self ks of
             Inl e \<Rightarrow> Inl e
           | Inr ps \<Rightarrow> Inr (PTuple [key, v] # ps)))"

definition RowMapping_items :: "rowmapping \<Rightarrow> error + view" where
  "RowMapping_items self =
     (case items_pairs self (ROMappingView_iter (RowMapping_keys self)) of
        Inl e \<Rightarrow> Inl e
      | Inr ps \<Rightarrow> Inr (ROMappingView_init self ps))"

section \<open>Attribute access\<close>

text \<open>
  \<^verbatim>\<open>row.name\<close> first looks the name up on the class of the row, along its bases, and
  calls \<^verbatim>\<open>__getattr__\<close> only for a name that is not found there. The names below are
  those the module defines in each class (slots, methods and properties), and the mixin
  methods of \<^verbatim>\<open>collections_abc.Sequence\<close>, the second base of \<^verbatim>\<open>Row\<close>. The names these
  classes inherit from further up (\<^verbatim>\<open>object\<close> and the machinery of abstract base
  classes, all of them special names of the interpreter) are a parameter, \<open>inherited\<close>.
\<close>

definition BaseRow_names :: "string list" where
  "BaseRow_names =
     [''__slots__'', ''_parent'', ''_data'', ''_keymap'', ''__init__'', ''__reduce__'',
      ''_values_impl'', ''__iter__'', ''__len__'', ''__hash__'', ''_subscript_impl'',
      ''_get_by_key_impl'', ''_get_by_key_impl_mapping'', ''__getattr__'']"

definition Sequence_names :: "string list" where
  "Sequence_names = [''__contains__'', ''__iter__'', ''__reversed__'', ''index'', ''count'']"

definition Row_names :: "string list" where
  "Row_names =
     [''__slots__'', ''_mapping'', ''__contains__'', ''__getitem__'', ''__getstate__'',
      ''__setstate__'', ''_op'', ''__hash__'', ''__lt__'', ''__le__'', ''__ge__'', ''__gt__'',
      ''__eq__'', ''__ne__'', ''__repr__'', ''keys'', ''_fields'', ''_asdict'', ''_replace'',
      ''_field_defaults'']"

definition LegacyRow_names :: "string list" where
  "LegacyRow_names =
     [''__contains__'', ''__getitem__'', ''has_key'', ''items'', ''iterkeys'', ''itervalues'',
      ''values'']"

fun class_names :: "row_class \<Rightarrow> string list" where
  "class_names Row = Row_names @ BaseRow_names @ Sequence_names"
| "class_names LegacyRow = LegacyRow_names @ Row_names @ BaseRow_names @ Sequence_names"

definition found_on_class :: "string set \<Rightarrow> row_class \<Rightarrow> string \<Rightarrow> bool" where
  "found_on_class inherited cls name = (name \<in> set (class_names cls) \<or> name \<in> inherited)"

text \<open>
  The outcome of \<^verbatim>\<open>row.name\<close>: the attribute of that name found on the class (a slot, a
  bound method, or what a property computes), or what \<^verbatim>\<open>__getattr__(name)\<close> gives.
\<close>

datatype attribute = Class_attribute string | Getattr "event list \<times> (error + pyval)"

definition row_getattr :: "string set \<Rightarrow> row \<Rightarrow> string \<Rightarrow> attribute" where
  "row_getattr inherited self name =
     (if found_on_class inherited (row_class self) name then Class_attribute name
      else Getattr (BaseRow_getattr self name))"

section \<open>A metadata object after the specification\<close>

text \<open>
  Modelled from the spec: the key map that the metadata class, which is not part of the
  module, computes from the column names. It binds every integer position to its
  record and every name to the position of its column, a name that two columns share
  being bound to the ambiguous sentinel; an absent name (\<^verbatim>\<open>None\<close>) marks an unlabeled
  column and is not a key.
\<close>

definition spec_keymap :: "pyval list \<Rightarrow> (pyval \<rightharpoonup> md_rec)" where
  "spec_keymap names =
     map_of
       (map (\<lambda>(i, k). (PInt (int i), \<lparr>MD_INDEX = Some (int i), MD_LOOKUP_KEY = PInt (int i)\<rparr>))
          (enumerate 0 names)
        @ map (\<lambda>(i, k). (k, \<lparr>MD_INDEX = (if count_list names k = 1 then Some (int i) else None),
                              MD_LOOKUP_KEY = k\<rparr>))
            (filter (\<lambda>(i, k). k \<noteq> PNone) (enumerate 0 names)))"

text \<open>
  Modelled from the spec: the metadata object, whose class is not part of the module,
  by its contract in the specification: the ordered sequence of optional column names;
  the key map; a fallback resolver that fails with a not-found condition; a raiser for
  ambiguous names that always fails and identifies the key; a warning that is not
  fatal; the key containment predicate; and the legacy value-or-key containment test.
  It is the metadata of the example rows.
\<close>

definition spec_metadata :: "pyval list \<Rightarrow> metadata" where
  "spec_metadata names =
     \<lparr>md_keys = names,
      md_keymap = spec_keymap names,
      md_key_fallback = (\<lambda>key. case key of KVal k \<Rightarrow> Inl (KeyError k)
                                           | KSlice a b c \<Rightarrow> Inl TypeError),
      md_raise_for_ambiguous_column_name = (\<lambda>rec. Some (AmbiguousColumnName (MD_LOOKUP_KEY rec))),
      md_warn_for_nonint = (\<lambda>key. None),
      md_has_key = (\<lambda>k. spec_keymap names k \<noteq> None),
      md_contains = (\<lambda>k data keymap. k \<in> set data \<or> keymap k \<noteq> None)\<rparr>"

section \<open>Example rows\<close>

text \<open>
  The row of values \<open>(1, 2, 3)\<close> with the keys \<open>a\<close>, \<open>b\<close>, \<open>c\<close>, of either class, and a row
  whose first and third columns are both named \<open>dup\<close> and whose second is unlabeled.
\<close>

definition example_metadata :: metadata where
  "example_metadata = spec_metadata [PStr ''a'', PStr ''b'', PStr ''c'']"

definition example_row :: "row_class \<Rightarrow> row" where
  "example_row cls =
     \<lparr>row_class = cls, row_parent = example_metadata,
      row_data = [PInt 1, PInt 2, PInt 3], row_keymap = md_keymap example_metadata\<rparr>"

definition dup_metadata :: metadata where
  "dup_metadata = spec_metadata [PStr ''dup'', PNone, PStr ''dup'']"

definition dup_row :: row where
  "dup_row =
     \<lparr>row_class = Row, row_parent = dup_metadata,
      row_data = [PInt 1, PInt 2, PInt 3], row_keymap = md_keymap dup_metadata\<rparr>"

text \<open>The row of values \<open>(1, 2)\<close> whose columns are named \<open>keys\<close> and \<open>b\<close>.\<close>

definition keys_metadata :: metadata where
  "keys_metadata = spec_metadata [PStr ''keys'', PStr ''b'']"

definition keys_row :: row where
  "keys_row =
     \<lparr>row_class = Row, row_parent = keys_metadata,
      row_data = [PInt 1, PInt 2], row_keymap = md_keymap keys_metadata\<rparr>"

section \<open>Facts about the examples and the built-ins\<close>

lemma example_keymap_a:
  "md_keymap example_metadata (PStr ''a'') = Some \<lparr>MD_INDEX = Some 0, MD_LOOKUP_KEY = PStr ''a''\<rparr>"
  by (simp add: example_metadata_def spec_metadata_def spec_keymap_def)

lemma dup_keymap_dup:
  "md_keymap dup_metadata (PStr ''dup'') = Some \<lparr>MD_INDEX = None, MD_LOOKUP_KEY = PStr ''dup''\<rparr>"
  by (simp add: dup_metadata_def spec_metadata_def spec_keymap_def)

lemma length_filter_less_iff:
  "length (filter P xs) < length xs \<longleftrightarrow> (\<exists>x \<in> set xs. \<not> P x)"
proof
  assume "length (filter P xs) < length xs"
  then have "filter P xs \<noteq> xs" by auto
  then show "\<exists>x \<in> set xs. \<not> P x" by (simp add: filter_id_conv)
next
  assume "\<exists>x \<in> set xs. \<not> P x"
  then show "length (filter P xs) < length xs" by (auto intro: length_filter_less)
qed

lemma named_keys_length:
  assumes "length ks = n"
  shows "length (filter (\<lambda>k. k \<noteq> PNone) ks) \<le> n"
    and "length (filter (\<lambda>k. k \<noteq> PNone) ks) < n \<longleftrightarrow> PNone \<in> set ks"
  using assms length_filter_less_iff [of "\<lambda>k. k \<noteq> PNone" ks] by auto

section \<open>Serialization\<close>

text \<open>
  C1. Round trip: the row rebuilt by \<^verbatim>\<open>rowproxy_reconstructor\<close> from what \<^verbatim>\<open>__reduce__\<close>
  returns (the class and the state of \<^verbatim>\<open>__getstate__\<close>: the metadata reference and the
  stored values) has the value sequence of the original, the same mapping keys and the
  same hash, whatever the built-in \<^verbatim>\<open>hash\<close> computes; it also has the original's class
  and metadata.
\<close>

theorem serialization_round_trip:
  "BaseRow_iter (unpickle (BaseRow_reduce r)) = BaseRow_iter r
   \<and> ROMappingView_iter (RowMapping_keys (Row_mapping (unpickle (BaseRow_reduce r))))
       = ROMappingView_iter (RowMapping_keys (Row_mapping r))
   \<and> RowMapping_iter (Row_mapping (unpickle (BaseRow_reduce r))) = RowMapping_iter (Row_mapping r)
   \<and> BaseRow_hash hash (unpickle (BaseRow_reduce r)) = BaseRow_hash hash r
   \<and> row_class (unpickle (BaseRow_reduce r)) = row_class r
   \<and> row_parent (unpickle (BaseRow_reduce r)) = row_parent r"
  by (simp add: unpickle_def BaseRow_reduce_def rowproxy_reconstructor_def Row_setstate_def
      Row_getstate_def BaseRow_iter_def RowMapping_keys_def Row_mapping_def
      ROMappingView_iter_def ROMappingView_init_def RowMapping_iter_def BaseRow_hash_def Let_def)

section \<open>Containment\<close>

text \<open>
  C2. \<^verbatim>\<open>x in row\<close> on a \<^verbatim>\<open>Row\<close> holds exactly when \<open>x\<close> is one of the stored values,
  so a key that is bound in the key map and is not a stored value is not contained.
  On a \<^verbatim>\<open>LegacyRow\<close> the test is the result of the metadata's \<^verbatim>\<open>_contains(key, row)\<close>;
  with the value-or-key predicate of the specification, a key bound in the key map is
  contained.
\<close>

theorem containment_divergence:
  "(row_class r = Row \<longrightarrow> row_contains r x = (x \<in> set (row_data r)))
   \<and> (row_class l = LegacyRow \<longrightarrow>
        row_contains l y = md_contains (row_parent l) y (row_data l) (row_keymap l))
   \<and> (row_class r = Row \<and> row_keymap r k \<noteq> None \<and> k \<notin> set (row_data r) \<longrightarrow> \<not> row_contains r k)
   \<and> (row_class l = LegacyRow \<and> row_parent l = spec_metadata names \<and> row_keymap l k \<noteq> None
        \<longrightarrow> row_contains l k)"
  by (simp add: row_contains_def Row_contains_def LegacyRow_contains_def spec_metadata_def)

theorem containment_divergence_witness:
  "\<not> row_contains (example_row Row) (PStr ''a'')
   \<and> row_contains (example_row LegacyRow) (PStr ''a'')
   \<and> row_contains (example_row Row) (PInt 1)"
  using containment_divergence [of "example_row Row" "PInt 1" "example_row LegacyRow" "PStr ''a''"
      "PStr ''a''" "[PStr ''a'', PStr ''b'', PStr ''c'']"]
  by (simp add: example_row_def example_metadata_def spec_metadata_def spec_keymap_def)

section \<open>RowMapping\<close>

text \<open>
  C4. The length of a \<^verbatim>\<open>RowMapping\<close> is the length of the row's storage, while its
  iteration and \<^verbatim>\<open>keys()\<close> yield the column names that are not \<^verbatim>\<open>None\<close>, in the order
  of the metadata's keys. When the metadata has one entry per position, the number of
  iterated keys is at most the length, and is smaller exactly when some position is
  unlabeled.
\<close>

theorem mapping_length_counts_all_positions:
  "RowMapping_len m = length (row_data (mapping_row m))
   \<and> RowMapping_len m = BaseRow_len (mapping_row m)
   \<and> RowMapping_iter m = filter (\<lambda>k. k \<noteq> PNone) (md_keys (row_parent (mapping_row m)))
   \<and> ROMappingView_iter (RowMapping_keys m) = RowMapping_iter m
   \<and> (length (md_keys (row_parent (mapping_row m))) = length (row_data (mapping_row m)) \<longrightarrow>
        length (RowMapping_iter m) \<le> RowMapping_len m
        \<and> (length (RowMapping_iter m) < RowMapping_len m
             \<longleftrightarrow> PNone \<in> set (md_keys (row_parent (mapping_row m)))))"
  using named_keys_length [of "md_keys (row_parent (mapping_row m))" "length (row_data (mapping_row m))"]
  by (simp add: RowMapping_len_def BaseRow_len_def RowMapping_iter_def RowMapping_keys_def
      ROMappingView_iter_def ROMappingView_init_def)

theorem mapping_length_counts_all_positions_witness:
  "RowMapping_len (Row_mapping dup_row) = 3
   \<and> RowMapping_iter (Row_mapping dup_row) = [PStr ''dup'', PStr ''dup'']
   \<and> ROMappingView_iter (RowMapping_keys (Row_mapping dup_row)) = [PStr ''dup'', PStr ''dup'']
   \<and> length (RowMapping_iter (Row_mapping dup_row)) < RowMapping_len (Row_mapping dup_row)"
  using mapping_length_counts_all_positions [of "Row_mapping dup_row"]
  by (simp add: Row_mapping_def dup_row_def dup_metadata_def spec_metadata_def)

section \<open>ROMappingView\<close>

text \<open>
  C6. Equality of a view with an iterable is the equality of the two element lists,
  in order: \<^verbatim>\<open>list(other) == list(self)\<close>, and \<^verbatim>\<open>!=\<close> is its negation. An iterable with
  the same set of elements in another order is not equal to the view.
\<close>

theorem view_equality_is_order_sensitive:
  "(list_of other = Inr ys \<longrightarrow>
      ROMappingView_eq v other = Inr (ys = ROMappingView_iter v)
      \<and> ROMappingView_ne v other = Inr (ys \<noteq> ROMappingView_iter v))
   \<and> (list_of other' = Inr zs \<and> set zs = set (ROMappingView_iter v) \<and> zs \<noteq> ROMappingView_iter v \<longrightarrow>
      ROMappingView_eq v other' = Inr False \<and> ROMappingView_ne v other' = Inr True)"
  by (simp add: ROMappingView_eq_def ROMappingView_ne_def)

theorem view_equality_is_order_sensitive_witness:
  "ROMappingView_eq (RowMapping_keys (Row_mapping (example_row Row)))
       (IVal (PList [PStr ''a'', PStr ''b'', PStr ''c''])) = Inr True
   \<and> ROMappingView_eq (RowMapping_keys (Row_mapping (example_row Row)))
       (IVal (PList [PStr ''c'', PStr ''b'', PStr ''a''])) = Inr False
   \<and> ROMappingView_ne (RowMapping_keys (Row_mapping (example_row Row)))
       (IVal (PList [PStr ''c'', PStr ''b'', PStr ''a''])) = Inr True"
  using view_equality_is_order_sensitive
    [of "IVal (PList [PStr ''a'', PStr ''b'', PStr ''c''])" "[PStr ''a'', PStr ''b'', PStr ''c'']"
        "RowMapping_keys (Row_mapping (example_row Row))"
        "IVal (PList [PStr ''c'', PStr ''b'', PStr ''a''])" "[PStr ''c'', PStr ''b'', PStr ''a'']"]
  by (simp add: RowMapping_keys_def Row_mapping_def example_row_def example_metadata_def
      spec_metadata_def ROMappingView_iter_def ROMappingView_init_def insert_commute)

section \<open>Keyed lookup\<close>

text \<open>
  What the \<^verbatim>\<open>try\<close> statement of \<^verbatim>\<open>_subscript_impl\<close> binds for a hashable key, and what
  the rest of the method does with the record.
\<close>

lemma subscript_try_bound:
  assumes "hashable k"
    and "row_keymap self k = Some rec
         \<or> (row_keymap self k = None \<and> md_key_fallback (row_parent self) (KVal k) = Inr rec)"
  shows "subscript_try self (KVal k) = Inr rec"
  using assms by (auto simp add: subscript_try_def dict_getitem_def)

lemma subscript_try_not_found:
  assumes "hashable k" and "row_keymap self k = None"
    and "md_key_fallback (row_parent self) (KVal k) = Inl e"
  shows "subscript_try self (KVal k) = Inl (Inl e)"
  using assms by (simp add: subscript_try_def dict_getitem_def)

lemma tuple_getitem_None: "tuple_getitem t (KVal PNone) = Inl TypeError"
  by (simp add: tuple_getitem_def)

lemma subscript_impl_ambiguous:
  assumes "subscript_try self key = Inr rec" and "MD_INDEX rec = None"
  shows "subscript_impl self key ismapping =
           ([], Inl (case md_raise_for_ambiguous_column_name (row_parent self) rec of
                       Some e \<Rightarrow> e | None \<Rightarrow> TypeError))"
  using assms by (simp add: subscript_impl_def tuple_getitem_None split: option.split)

lemma subscript_impl_position:
  assumes "subscript_try self key = Inr rec" and "MD_INDEX rec = Some i"
  shows "subscript_impl self key ismapping =
           (if \<not> ismapping \<and> KVal (PInt i) \<noteq> key \<and> \<not> isinstance_int key then
              ([Warn_for_nonint key],
               case md_warn_for_nonint (row_parent self) key of
                 Some e \<Rightarrow> Inl e
               | None \<Rightarrow> tuple_getitem (row_data self) (KVal (PInt i)))
            else ([], tuple_getitem (row_data self) (KVal (PInt i))))"
  using assms by (simp add: subscript_impl_def split: option.split)

lemma subscript_impl_mapping_no_events: "fst (subscript_impl self key True) = []"
  by (simp add: subscript_impl_def Let_def split: sum.split option.split prod.split)

text \<open>
  C3. A lookup whose resolution record, found in the key map or returned by the
  fallback, has \<^verbatim>\<open>None\<close> as its position never returns a value, in either context: it
  fails with the exception that the metadata's \<^verbatim>\<open>_raise_for_ambiguous_column_name\<close>
  raises for that record (and with \<^verbatim>\<open>TypeError\<close>, from \<^verbatim>\<open>self._data[None]\<close>, should
  that method return). With a raiser that reports the ambiguous column name of the
  record's key, the lookup fails with that condition. No warning is signaled.
\<close>

theorem ambiguous_key_is_never_resolved:
  assumes "hashable k"
    and "row_keymap self k = Some rec
         \<or> (row_keymap self k = None \<and> md_key_fallback (row_parent self) (KVal k) = Inr rec)"
    and "MD_INDEX rec = None"
  shows "(\<exists>e. subscript_impl self (KVal k) ismapping = ([], Inl e))
         \<and> (md_raise_for_ambiguous_column_name (row_parent self) rec = Some err \<longrightarrow>
              subscript_impl self (KVal k) ismapping = ([], Inl err))
         \<and> (md_raise_for_ambiguous_column_name (row_parent self) rec
               = Some (AmbiguousColumnName (MD_LOOKUP_KEY rec)) \<longrightarrow>
              subscript_impl self (KVal k) ismapping
               = ([], Inl (AmbiguousColumnName (MD_LOOKUP_KEY rec))))"
  using subscript_impl_ambiguous [OF subscript_try_bound [OF assms(1,2)] assms(3)]
  by simp

theorem ambiguous_key_is_never_resolved_witness:
  "subscript_impl dup_row (KVal (PStr ''dup'')) True
     = ([], Inl (AmbiguousColumnName (PStr ''dup'')))
   \<and> subscript_impl dup_row (KVal (PStr ''dup'')) False
     = ([], Inl (AmbiguousColumnName (PStr ''dup'')))"
proof -
  let ?rec = "\<lparr>MD_INDEX = None, MD_LOOKUP_KEY = PStr ''dup''\<rparr>"
  have h: "hashable (PStr ''dup'')" by simp
  have b: "row_keymap dup_row (PStr ''dup'') = Some ?rec
           \<or> (row_keymap dup_row (PStr ''dup'') = None
               \<and> md_key_fallback (row_parent dup_row) (KVal (PStr ''dup'')) = Inr ?rec)"
    by (simp add: dup_row_def dup_keymap_dup)
  have a: "MD_INDEX ?rec = None" by simp
  have r: "md_raise_for_ambiguous_column_name (row_parent dup_row) ?rec
             = Some (AmbiguousColumnName (MD_LOOKUP_KEY ?rec))"
    by (simp add: dup_row_def dup_metadata_def spec_metadata_def)
  show ?thesis
    using ambiguous_key_is_never_resolved [OF h b a, of True "AmbiguousColumnName (PStr ''dup'')"]
      ambiguous_key_is_never_resolved [OF h b a, of False "AmbiguousColumnName (PStr ''dup'')"] r
    by simp
qed



text \<open>
  The method \<^verbatim>\<open>__getattr__(name)\<close> itself is the keyed lookup of the name in mapping
  context: it never signals a warning; for a name bound in the key map to a position
  it gives what the mapping view's \<^verbatim>\<open>__getitem__\<close> gives, the stored value at that
  position; and the \<^verbatim>\<open>KeyError\<close> of a name that is neither in the key map nor found by
  the fallback becomes \<^verbatim>\<open>AttributeError\<close> with the same argument.
\<close>

lemma BaseRow_getattr_is_mapping_lookup:
  "fst (BaseRow_getattr self name) = []
   \<and> (row_keymap self (PStr name) = Some rec \<and> MD_INDEX rec = Some i \<longrightarrow>
        BaseRow_getattr self name = RowMapping_getitem (Row_mapping self) (KVal (PStr name))
        \<and> BaseRow_getattr self name = ([], tuple_getitem (row_data self) (KVal (PInt i))))
   \<and> (row_keymap self (PStr missing) = None
        \<and> md_key_fallback (row_parent self) (KVal (PStr missing)) = Inl (KeyError a) \<longrightarrow>
        RowMapping_getitem (Row_mapping self) (KVal (PStr missing)) = ([], Inl (KeyError a))
        \<and> BaseRow_getattr self missing = ([], Inl (AttributeError a)))"
proof (intro conjI impI)
  show "fst (BaseRow_getattr self name) = []"
    using subscript_impl_mapping_no_events [of self "KVal (PStr name)"]
    by (auto simp add: BaseRow_getattr_def get_by_key_impl_mapping_def
        split: prod.split sum.split error.split)
next
  assume b: "row_keymap self (PStr name) = Some rec \<and> MD_INDEX rec = Some i"
  have "subscript_try self (KVal (PStr name)) = Inr rec"
    using b by (intro subscript_try_bound) simp_all
  then have s: "subscript_impl self (KVal (PStr name)) True
                  = ([], tuple_getitem (row_data self) (KVal (PInt i)))"
    using b by (simp add: subscript_impl_position)
  have t: "\<And>x. tuple_getitem (row_data self) (KVal (PInt i)) \<noteq> Inl (KeyError x)"
    by (simp add: tuple_getitem_def Let_def)
  show g: "BaseRow_getattr self name = ([], tuple_getitem (row_data self) (KVal (PInt i)))"
    using s t by (auto simp add: BaseRow_getattr_def get_by_key_impl_mapping_def
        split: sum.split error.split)
  show "BaseRow_getattr self name = RowMapping_getitem (Row_mapping self) (KVal (PStr name))"
    using g s by (simp add: RowMapping_getitem_def Row_mapping_def get_by_key_impl_mapping_def)
next
  assume m: "row_keymap self (PStr missing) = None
             \<and> md_key_fallback (row_parent self) (KVal (PStr missing)) = Inl (KeyError a)"
  have "subscript_try self (KVal (PStr missing)) = Inl (Inl (KeyError a))"
    using m by (intro subscript_try_not_found) simp_all
  then have s: "subscript_impl self (KVal (PStr missing)) True = ([], Inl (KeyError a))"
    by (simp add: subscript_impl_def)
  show "RowMapping_getitem (Row_mapping self) (KVal (PStr missing)) = ([], Inl (KeyError a))"
    using s by (simp add: RowMapping_getitem_def Row_mapping_def get_by_key_impl_mapping_def)
  show "BaseRow_getattr self missing = ([], Inl (AttributeError a))"
    using s by (simp add: BaseRow_getattr_def get_by_key_impl_mapping_def)
qed

text \<open>Which of the names of the examples are attributes of the classes.\<close>

lemma keys_keymap_keys:
  "md_keymap keys_metadata (PStr ''keys'')
     = Some \<lparr>MD_INDEX = Some 0, MD_LOOKUP_KEY = PStr ''keys''\<rparr>"
  by (simp add: keys_metadata_def spec_metadata_def spec_keymap_def)

lemma keys_found_on_Row: "found_on_class inherited Row ''keys''"
  by (simp add: found_on_class_def Row_names_def)

lemma example_names_not_on_class:
  "\<not> found_on_class {} cls ''a''" "\<not> found_on_class {} cls ''z''"
  by (cases cls; simp add: found_on_class_def Row_names_def BaseRow_names_def
      Sequence_names_def LegacyRow_names_def)+

text \<open>
  C10, as stated, fails for a bound name that is an attribute of the class:
  \<^verbatim>\<open>__getattr__\<close> is called only for names that the lookup on the class does not find.
  In a row whose first column is named \<open>keys\<close>, the mapping view gives the stored
  value for \<open>keys\<close>, while \<^verbatim>\<open>row.keys\<close> is the method \<^verbatim>\<open>keys\<close> of \<^verbatim>\<open>Row\<close>.
\<close>

theorem attribute_access_counterexample:
  "row_keymap keys_row (PStr ''keys'')
     = Some \<lparr>MD_INDEX = Some 0, MD_LOOKUP_KEY = PStr ''keys''\<rparr>
   \<and> RowMapping_getitem (Row_mapping keys_row) (KVal (PStr ''keys'')) = ([], Inr (PInt 1))
   \<and> row_getattr {} keys_row ''keys'' = Class_attribute ''keys''
   \<and> row_getattr {} keys_row ''keys''
       \<noteq> Getattr (RowMapping_getitem (Row_mapping keys_row) (KVal (PStr ''keys'')))"
proof -
  have k: "row_keymap keys_row (PStr ''keys'')
             = Some \<lparr>MD_INDEX = Some 0, MD_LOOKUP_KEY = PStr ''keys''\<rparr>"
    by (simp add: keys_row_def keys_keymap_keys)
  have "subscript_try keys_row (KVal (PStr ''keys''))
          = Inr \<lparr>MD_INDEX = Some 0, MD_LOOKUP_KEY = PStr ''keys''\<rparr>"
    using k by (intro subscript_try_bound) simp_all
  then have m: "RowMapping_getitem (Row_mapping keys_row) (KVal (PStr ''keys'')) = ([], Inr (PInt 1))"
    by (simp add: RowMapping_getitem_def Row_mapping_def get_by_key_impl_mapping_def
        subscript_impl_position) (simp add: keys_row_def tuple_getitem_def)
  have a: "row_getattr {} keys_row ''keys'' = Class_attribute ''keys''"
    using keys_found_on_Row [of "{}"] by (simp add: row_getattr_def keys_row_def)
  show ?thesis using k m a by simp
qed

text \<open>
  C10, amended. A name that is an attribute of the row's class (a slot, method or
  property of \<^verbatim>\<open>BaseRow\<close>, \<^verbatim>\<open>Row\<close> or \<^verbatim>\<open>LegacyRow\<close>, or an inherited one) gives that
  attribute. Every other name is resolved by \<^verbatim>\<open>__getattr__\<close>, the keyed lookup in
  mapping context: no warning is signaled; a name bound in the key map to a position
  gives what the mapping view's \<^verbatim>\<open>__getitem__\<close> gives, the stored value at that
  position; and for a name that is neither in the key map nor found by the fallback,
  the \<^verbatim>\<open>KeyError\<close> that the mapping view propagates becomes \<^verbatim>\<open>AttributeError\<close> with the
  same argument.
\<close>

theorem attribute_access_of_unshadowed_name:
  "(found_on_class inherited (row_class self) attr \<longrightarrow>
      row_getattr inherited self attr = Class_attribute attr)
   \<and> (\<not> found_on_class inherited (row_class self) name \<longrightarrow>
      row_getattr inherited self name = Getattr (BaseRow_getattr self name)
      \<and> fst (BaseRow_getattr self name) = []
      \<and> (row_keymap self (PStr name) = Some rec \<and> MD_INDEX rec = Some i \<longrightarrow>
           row_getattr inherited self name
             = Getattr (RowMapping_getitem (Row_mapping self) (KVal (PStr name)))
           \<and> row_getattr inherited self name
             = Getattr ([], tuple_getitem (row_data self) (KVal (PInt i)))))
   \<and> (\<not> found_on_class inherited (row_class self) missing
        \<and> row_keymap self (PStr missing) = None
        \<and> md_key_fallback (row_parent self) (KVal (PStr missing)) = Inl (KeyError a) \<longrightarrow>
      RowMapping_getitem (Row_mapping self) (KVal (PStr missing)) = ([], Inl (KeyError a))
      \<and> row_getattr inherited self missing = Getattr ([], Inl (AttributeError a)))"
proof -
  note G = BaseRow_getattr_is_mapping_lookup [of self name rec i missing a]
  have shadowed: "row_getattr inherited self attr = Class_attribute attr"
    if "found_on_class inherited (row_class self) attr"
    using that by (simp add: row_getattr_def)
  have fallback: "row_getattr inherited self n = Getattr (BaseRow_getattr self n)"
    if "\<not> found_on_class inherited (row_class self) n" for n
    using that by (simp add: row_getattr_def)
  have bound: "BaseRow_getattr self name = RowMapping_getitem (Row_mapping self) (KVal (PStr name))
      \<and> BaseRow_getattr self name = ([], tuple_getitem (row_data self) (KVal (PInt i)))"
    if "row_keymap self (PStr name) = Some rec \<and> MD_INDEX rec = Some i"
    using G that by blast
  have absent: "RowMapping_getitem (Row_mapping self) (KVal (PStr missing)) = ([], Inl (KeyError a))
      \<and> BaseRow_getattr self missing = ([], Inl (AttributeError a))"
    if "row_keymap self (PStr missing) = None
        \<and> md_key_fallback (row_parent self) (KVal (PStr missing)) = Inl (KeyError a)"
    using G that by blast
  have quiet: "fst (BaseRow_getattr self name) = []"
    using G by blast
  show ?thesis
    using shadowed fallback [of name] fallback [of missing] bound absent quiet
    by (metis (no_types, lifting))
qed

theorem attribute_access_of_unshadowed_name_witness:
  "row_getattr {} (example_row Row) ''a'' = Getattr ([], Inr (PInt 1))
   \<and> RowMapping_getitem (Row_mapping (example_row Row)) (KVal (PStr ''a'')) = ([], Inr (PInt 1))
   \<and> RowMapping_getitem (Row_mapping (example_row Row)) (KVal (PStr ''z''))
       = ([], Inl (KeyError (PStr ''z'')))
   \<and> row_getattr {} (example_row Row) ''z'' = Getattr ([], Inl (AttributeError (PStr ''z'')))
   \<and> row_getattr {} (example_row Row) ''keys'' = Class_attribute ''keys''"
proof -
  let ?r = "example_row Row"
  let ?rec = "\<lparr>MD_INDEX = Some 0, MD_LOOKUP_KEY = PStr ''a''\<rparr>"
  have c: "row_class ?r = Row" by (simp add: example_row_def)
  have b: "row_keymap ?r (PStr ''a'') = Some ?rec"
    by (simp add: example_row_def example_keymap_a)
  have i: "MD_INDEX ?rec = Some 0" by simp
  have v: "tuple_getitem (row_data ?r) (KVal (PInt 0)) = Inr (PInt 1)"
    by (simp add: example_row_def tuple_getitem_def)
  have m: "row_keymap ?r (PStr ''z'') = None"
    by (simp add: example_row_def example_metadata_def spec_metadata_def spec_keymap_def)
  have f: "md_key_fallback (row_parent ?r) (KVal (PStr ''z'')) = Inl (KeyError (PStr ''z''))"
    by (simp add: example_row_def example_metadata_def spec_metadata_def)
  have na: "\<not> found_on_class {} (row_class ?r) ''a''"
    and nz: "\<not> found_on_class {} (row_class ?r) ''z''"
    by (rule example_names_not_on_class)+
  have fk: "found_on_class {} (row_class ?r) ''keys''"
    using keys_found_on_Row [of "{}"] c by simp
  note T = attribute_access_of_unshadowed_name
      [of "{}" ?r "''keys''" "''a''" ?rec 0 "''z''" "PStr ''z''"]
  have p1: "row_getattr {} ?r ''a'' = Getattr (RowMapping_getitem (Row_mapping ?r) (KVal (PStr ''a'')))"
    and p2: "row_getattr {} ?r ''a'' = Getattr ([], tuple_getitem (row_data ?r) (KVal (PInt 0)))"
    using T na b i by blast+
  have p3: "RowMapping_getitem (Row_mapping ?r) (KVal (PStr ''z'')) = ([], Inl (KeyError (PStr ''z'')))"
    and p4: "row_getattr {} ?r ''z'' = Getattr ([], Inl (AttributeError (PStr ''z'')))"
    using T nz m f by blast+
  have p5: "row_getattr {} ?r ''keys'' = Class_attribute ''keys''"
    using T fk by blast
  have a1: "row_getattr {} ?r ''a'' = Getattr ([], Inr (PInt 1))"
    using p2 by (simp only: v)
  have a2: "RowMapping_getitem (Row_mapping ?r) (KVal (PStr ''a'')) = ([], Inr (PInt 1))"
    using p1 a1 by simp
  show ?thesis
    using a1 a2 p3 p4 p5 by blast
qed

section \<open>Construction\<close>

lemma process_values_length:
  "process_values ps = Inr vs \<Longrightarrow> length vs = length ps"
  by (induction ps arbitrary: vs rule: process_values.induct)
     (auto split: sum.splits option.splits)

lemma process_values_nth:
  "process_values ps = Inr vs \<Longrightarrow> i < length ps \<Longrightarrow>
     (case fst (ps ! i) of None \<Rightarrow> Inr (snd (ps ! i)) | Some f \<Rightarrow> f (snd (ps ! i))) = Inr (vs ! i)"
proof (induction ps arbitrary: vs i)
  case Nil
  then show ?case by simp
next
  case (Cons p ps)
  obtain proc v where p: "p = (proc, v)" by (cases p)
  from Cons.prems(1) p obtain v' vs' where
    v': "(case proc of None \<Rightarrow> Inr v | Some f \<Rightarrow> f v) = Inr v'"
    and vs': "process_values ps = Inr vs'" and vs: "vs = v' # vs'"
    by (auto split: sum.splits)
  show ?case
  proof (cases i)
    case 0
    then show ?thesis using p v' vs by (simp split: option.splits)
  next
    case (Suc n)
    then have "n < length ps" using Cons.prems(2) by simp
    from Cons.IH [OF vs' this] show ?thesis using Suc vs by (simp split: option.splits)
  qed
qed

lemma process_values_succeeds:
  "list_all (\<lambda>(proc, v). case proc of None \<Rightarrow> True | Some f \<Rightarrow> \<exists>v'. f v = Inr v') ps
     \<Longrightarrow> \<exists>vs. process_values ps = Inr vs"
  by (induction ps rule: process_values.induct) (auto split: option.splits)

text \<open>
  C8, as stated, fails: \<^verbatim>\<open>__init__\<close> compares no lengths, and \<^verbatim>\<open>zip\<close> stops at the
  shorter of its arguments. One processor and two raw values give a row of length one.
\<close>

theorem construction_length_counterexample:
  "length [None :: processor option] \<noteq> length [PInt 1, PInt 2]
   \<and> BaseRow_init Row example_metadata [None] (md_keymap example_metadata) [PInt 1, PInt 2]
       = Inr \<lparr>row_class = Row, row_parent = example_metadata, row_data = [PInt 1],
              row_keymap = md_keymap example_metadata\<rparr>"
  by (simp add: BaseRow_init_def)

text \<open>
  C8, amended. Construction checks no lengths. Whenever no processor raises on its
  value, it produces a row; every row it produces has the given class, metadata and key
  map, its storage has the length of the shorter of \<^verbatim>\<open>processors\<close> and \<^verbatim>\<open>data\<close> (their
  common length when they agree), and position \<open>i\<close> holds raw value \<open>i\<close> passed through
  processor \<open>i\<close>, or the raw value itself where the processor is absent.
\<close>

theorem construction_takes_common_prefix:
  "(BaseRow_init cls parent processors keymap data = Inr r \<longrightarrow>
      row_class r = cls \<and> row_parent r = parent \<and> row_keymap r = keymap
      \<and> length (row_data r) = min (length processors) (length data)
      \<and> (length processors = length data \<longrightarrow> length (row_data r) = length data)
      \<and> (\<forall>i < length (row_data r).
            (case processors ! i of None \<Rightarrow> Inr (data ! i) | Some f \<Rightarrow> f (data ! i))
              = Inr (row_data r ! i)))
   \<and> (list_all (\<lambda>(proc, v). case proc of None \<Rightarrow> True | Some f \<Rightarrow> \<exists>v'. f v = Inr v')
         (zip processors data) \<longrightarrow>
       (\<exists>r'. BaseRow_init cls parent processors keymap data = Inr r'))"
proof (intro conjI impI)
  assume "list_all (\<lambda>(proc, v). case proc of None \<Rightarrow> True | Some f \<Rightarrow> \<exists>v'. f v = Inr v')
            (zip processors data)"
  from process_values_succeeds [OF this]
  show "\<exists>r'. BaseRow_init cls parent processors keymap data = Inr r'"
    by (auto simp add: BaseRow_init_def)
next
  assume a: "BaseRow_init cls parent processors keymap data = Inr r"
  then obtain vs where vs: "process_values (zip processors data) = Inr vs"
    and r: "r = \<lparr>row_class = cls, row_parent = parent, row_data = vs, row_keymap = keymap\<rparr>"
    by (auto simp add: BaseRow_init_def split: sum.splits)
  show "row_class r = cls" "row_parent r = parent" "row_keymap r = keymap"
    using r by simp_all
  show len: "length (row_data r) = min (length processors) (length data)"
    using process_values_length [OF vs] r by simp
  then show "length (row_data r) = length data" if "length processors = length data"
    using that by simp
  show "\<forall>i < length (row_data r).
          (case processors ! i of None \<Rightarrow> Inr (data ! i) | Some f \<Rightarrow> f (data ! i))
            = Inr (row_data r ! i)"
  proof (intro allI impI)
    fix i assume "i < length (row_data r)"
    then have i: "i < length (zip processors data)" using len by simp
    from process_values_nth [OF vs i] i show
      "(case processors ! i of None \<Rightarrow> Inr (data ! i) | Some f \<Rightarrow> f (data ! i))
         = Inr (row_data r ! i)"
      using r by (simp split: option.splits)
  qed
qed

theorem construction_takes_common_prefix_witness:
  "BaseRow_init Row example_metadata [None, None, None] (md_keymap example_metadata)
      [PInt 1, PInt 2, PInt 3] = Inr (example_row Row)
   \<and> length (row_data (example_row Row)) = 3"
proof -
  have e: "BaseRow_init Row example_metadata [None, None, None] (md_keymap example_metadata)
      [PInt 1, PInt 2, PInt 3] = Inr (example_row Row)"
    by (simp add: BaseRow_init_def example_row_def)
  show ?thesis
    using construction_takes_common_prefix [of Row example_metadata "[None, None, None]"
        "md_keymap example_metadata" "[PInt 1, PInt 2, PInt 3]" "example_row Row"] e
    by simp
qed

section \<open>Subscription of a Row\<close>

text \<open>
  Tuple indexing by an integer, and the positions of a slice: they lie in the tuple,
  and a slice \<^verbatim>\<open>a:b\<close> within the bounds selects the elements from \<open>a\<close> up to \<open>b\<close>.
\<close>

lemma tuple_getitem_int:
  "tuple_getitem t (KVal (PInt i)) =
     (if 0 \<le> i \<and> i < int (length t) then Inr (t ! nat i)
      else if - int (length t) \<le> i \<and> i < 0 then Inr (t ! nat (int (length t) + i))
      else Inl IndexError)"
  by (auto simp add: tuple_getitem_def Let_def add.commute)

lemma slice_clip_bounds:
  assumes "0 \<le> n"
  shows "0 < st \<Longrightarrow> 0 \<le> slice_clip n st i \<and> slice_clip n st i \<le> n"
    and "st < 0 \<Longrightarrow> - 1 \<le> slice_clip n st i \<and> slice_clip n st i \<le> n - 1"
  using assms by (auto simp add: slice_clip_def)

lemma div_mult_le_int:
  fixes a d :: int
  assumes "0 < d" and "k \<le> a div d"
  shows "k * d \<le> a"
proof -
  have "k * d \<le> (a div d) * d" using assms by (simp add: mult_right_mono)
  also have "\<dots> \<le> a" using assms(1) by (metis div_mult_mod_eq pos_mod_sign add.commute add_increasing2 order_refl le_add_same_cancel1)
  finally show ?thesis .
qed

lemma slice_indices_in_range:
  assumes "slice_indices n start stop step = Inr js" and "0 \<le> n" and "j \<in> set js"
  shows "0 \<le> j \<and> j < n"
proof -
  define st where "st = (case step of None \<Rightarrow> 1 | Some s \<Rightarrow> s)"
  define lo where "lo = (case start of None \<Rightarrow> (if st < 0 then n - 1 else 0)
                               | Some i \<Rightarrow> slice_clip n st i)"
  define hi where "hi = (case stop of None \<Rightarrow> (if st < 0 then - 1 else n)
                              | Some i \<Rightarrow> slice_clip n st i)"
  define len where "len = (if st < 0 then (if hi < lo then (lo - hi - 1) div (- st) + 1 else 0)
                   else (if lo < hi then (hi - lo - 1) div st + 1 else 0))"
  have "slice_indices n start stop step
          = (if st = 0 then Inl ValueError else Inr (map (\<lambda>k. lo + int k * st) [0..<nat len]))"
    unfolding slice_indices_def Let_def len_def hi_def lo_def st_def by (rule refl)
  with assms(1) have st0: "st \<noteq> 0" and js: "js = map (\<lambda>k. lo + int k * st) [0..<nat len]"
    by (simp_all split: if_splits)
  from js assms(3) obtain k where k: "k < nat len" and j: "j = lo + int k * st" by auto
  show ?thesis
  proof (cases "0 < st")
    case True
    have lo: "0 \<le> lo" "lo \<le> n" and hi: "0 \<le> hi" "hi \<le> n"
      using True slice_clip_bounds(1) [OF assms(2) True] assms(2)
      by (auto simp add: lo_def hi_def split: option.splits)
    from k True have lt: "lo < hi" and "int k \<le> (hi - lo - 1) div st"
      by (auto simp add: len_def split: if_splits)
    then have "int k * st \<le> hi - lo - 1" using div_mult_le_int [OF True] by blast
    moreover have "0 \<le> int k * st" using True by simp
    ultimately show ?thesis using j lo hi by linarith
  next
    case False
    then have neg: "st < 0" using st0 by simp
    have lo: "- 1 \<le> lo" "lo \<le> n - 1" and hi: "- 1 \<le> hi" "hi \<le> n - 1"
      using neg slice_clip_bounds(2) [OF assms(2) neg] assms(2)
      by (auto simp add: lo_def hi_def split: option.splits)
    from k neg have lt: "hi < lo" and "int k \<le> (lo - hi - 1) div (- st)"
      by (auto simp add: len_def split: if_splits)
    then have "int k * (- st) \<le> lo - hi - 1"
      using div_mult_le_int [of "- st" "int k" "lo - hi - 1"] neg by simp
    moreover have "0 \<le> int k * (- st)" using neg by (simp add: mult_nonneg_nonpos)
    ultimately show ?thesis using j lo hi by simp
  qed
qed

lemma slice_indices_defined:
  "step \<noteq> Some 0 \<Longrightarrow> \<exists>js. slice_indices n start stop step = Inr js"
  by (auto simp add: slice_indices_def Let_def split: option.splits)

lemma slice_indices_zero_step: "slice_indices n start stop (Some 0) = Inl ValueError"
  by (simp add: slice_indices_def)

lemma slice_indices_simple:
  assumes "0 \<le> a" "a \<le> b" "b \<le> n"
  shows "slice_indices n (Some a) (Some b) None = Inr (map (\<lambda>k. a + int k) [0..<nat (b - a)])"
  using assms by (auto simp add: slice_indices_def slice_clip_def Let_def)

lemma map_nth_take_drop:
  assumes "a + m \<le> length t"
  shows "map (\<lambda>k. t ! (a + k)) [0..<m] = take m (drop a t)"
  using assms by (intro nth_equalityI) auto

lemma tuple_getitem_simple_slice:
  assumes "0 \<le> a" "a \<le> b" "b \<le> int (length t)"
  shows "tuple_getitem t (KSlice (Some a) (Some b) None)
           = Inr (PTuple (take (nat (b - a)) (drop (nat a) t)))"
proof -
  have "map ((\<lambda>j. t ! nat j) \<circ> (\<lambda>k. a + int k)) [0..<nat (b - a)]
          = map (\<lambda>k. t ! (nat a + k)) [0..<nat (b - a)]"
    using assms(1) by (simp add: nat_add_distrib)
  also have "\<dots> = take (nat (b - a)) (drop (nat a) t)"
    using assms by (intro map_nth_take_drop) linarith
  finally show ?thesis
    using slice_indices_simple [OF assms] by (simp add: tuple_getitem_def)
qed

text \<open>
  C9, as stated, fails: \<^verbatim>\<open>Row.__getitem__\<close> is tuple indexing of \<^verbatim>\<open>_data\<close>, where a
  negative integer counts from the end. \<open>-1\<close> is outside \<open>[0, 3)\<close> and selects the last
  value of the row \<open>(1, 2, 3)\<close>.
\<close>

theorem strict_subscription_counterexample:
  "\<not> (0 \<le> (- 1 :: int))
   \<and> Row_getitem (example_row Row) (KVal (PInt (- 1))) = Inr (PInt 3)"
  by (simp add: Row_getitem_def example_row_def tuple_getitem_def)

text \<open>
  C9, amended. On a \<^verbatim>\<open>Row\<close> of length \<open>n\<close>, an integer \<open>i\<close> in \<open>[0, n)\<close> selects the
  stored value at position \<open>i\<close>, an integer \<open>j\<close> in \<open>[-n, 0)\<close> the one at position
  \<open>n + j\<close>, and an integer outside \<open>[-n, n)\<close> raises \<^verbatim>\<open>IndexError\<close>. A slice whose step
  is not zero gives the tuple of the stored values at the positions it selects, all of
  them positions of the row, in the order of selection; \<^verbatim>\<open>a:b\<close> with
  \<open>0 \<le> a \<le> b \<le> n\<close> gives the values from position \<open>a\<close> up to \<open>b\<close>; a zero step raises
  \<^verbatim>\<open>ValueError\<close>. A string or a column object is not resolved as a name: it raises
  \<^verbatim>\<open>TypeError\<close>. \<^verbatim>\<open>row[key]\<close> on an object of class \<^verbatim>\<open>Row\<close> is this method, and signals
  no warning.
\<close>

theorem strict_subscription:
  "(0 \<le> i \<and> i < int (BaseRow_len self) \<longrightarrow>
      Row_getitem self (KVal (PInt i)) = Inr (row_data self ! nat i))
   \<and> (- int (BaseRow_len self) \<le> j \<and> j < 0 \<longrightarrow>
      Row_getitem self (KVal (PInt j)) = Inr (row_data self ! nat (int (BaseRow_len self) + j)))
   \<and> (out < - int (BaseRow_len self) \<or> int (BaseRow_len self) \<le> out \<longrightarrow>
      Row_getitem self (KVal (PInt out)) = Inl IndexError)
   \<and> (step \<noteq> Some 0 \<longrightarrow>
      (\<exists>js. slice_indices (int (BaseRow_len self)) start stop step = Inr js
         \<and> (\<forall>p \<in> set js. 0 \<le> p \<and> p < int (BaseRow_len self))
         \<and> Row_getitem self (KSlice start stop step)
              = Inr (PTuple (map (\<lambda>p. row_data self ! nat p) js))))
   \<and> (0 \<le> a \<and> a \<le> b \<and> b \<le> int (BaseRow_len self) \<longrightarrow>
      Row_getitem self (KSlice (Some a) (Some b) None)
        = Inr (PTuple (take (nat (b - a)) (drop (nat a) (row_data self)))))
   \<and> Row_getitem self (KSlice start' stop' (Some 0)) = Inl ValueError
   \<and> Row_getitem self (KVal (PStr name)) = Inl TypeError
   \<and> Row_getitem self (KVal (PObj column)) = Inl TypeError
   \<and> (row_class self = Row \<longrightarrow> row_getitem self key = ([], Row_getitem self key))"
proof -
  have slice: "\<exists>js. slice_indices (int (BaseRow_len self)) start stop step = Inr js
         \<and> (\<forall>p \<in> set js. 0 \<le> p \<and> p < int (BaseRow_len self))
         \<and> Row_getitem self (KSlice start stop step)
              = Inr (PTuple (map (\<lambda>p. row_data self ! nat p) js))" if "step \<noteq> Some 0"
  proof -
    from slice_indices_defined [OF that] obtain js
      where js: "slice_indices (int (BaseRow_len self)) start stop step = Inr js" by blast
    have "\<forall>p \<in> set js. 0 \<le> p \<and> p < int (BaseRow_len self)"
      using slice_indices_in_range [OF js] by simp
    moreover have "Row_getitem self (KSlice start stop step)
              = Inr (PTuple (map (\<lambda>p. row_data self ! nat p) js))"
      using js by (simp add: Row_getitem_def tuple_getitem_def BaseRow_len_def)
    ultimately show ?thesis using js by blast
  qed
  have simple: "Row_getitem self (KSlice (Some a) (Some b) None)
        = Inr (PTuple (take (nat (b - a)) (drop (nat a) (row_data self))))"
    if "0 \<le> a \<and> a \<le> b \<and> b \<le> int (BaseRow_len self)"
    using that tuple_getitem_simple_slice [of a b "row_data self"]
    by (simp add: Row_getitem_def BaseRow_len_def)
  have ints: "(0 \<le> i \<and> i < int (BaseRow_len self) \<longrightarrow>
      Row_getitem self (KVal (PInt i)) = Inr (row_data self ! nat i))"
    "(- int (BaseRow_len self) \<le> j \<and> j < 0 \<longrightarrow>
      Row_getitem self (KVal (PInt j)) = Inr (row_data self ! nat (int (BaseRow_len self) + j)))"
    "(out < - int (BaseRow_len self) \<or> int (BaseRow_len self) \<le> out \<longrightarrow>
      Row_getitem self (KVal (PInt out)) = Inl IndexError)"
    by (auto simp add: Row_getitem_def BaseRow_len_def tuple_getitem_int)
  have rest: "Row_getitem self (KSlice start' stop' (Some 0)) = Inl ValueError"
    "Row_getitem self (KVal (PStr name)) = Inl TypeError"
    "Row_getitem self (KVal (PObj column)) = Inl TypeError"
    "(row_class self = Row \<longrightarrow> row_getitem self key = ([], Row_getitem self key))"
    by (simp_all add: Row_getitem_def tuple_getitem_def slice_indices_zero_step row_getitem_def)
  show ?thesis
    using slice simple ints rest by blast
qed

theorem strict_subscription_witness:
  "Row_getitem (example_row Row) (KVal (PInt 0)) = Inr (PInt 1)
   \<and> Row_getitem (example_row Row) (KVal (PInt (- 1))) = Inr (PInt 3)
   \<and> Row_getitem (example_row Row) (KVal (PInt 3)) = Inl IndexError
   \<and> Row_getitem (example_row Row) (KSlice (Some 1) (Some 3) None) = Inr (PTuple [PInt 2, PInt 3])
   \<and> Row_getitem (example_row Row) (KVal (PStr ''a'')) = Inl TypeError
   \<and> row_getitem (example_row Row) (KVal (PStr ''a'')) = ([], Inl TypeError)"
proof -
  let ?r = "example_row Row"
  have len: "BaseRow_len ?r = 3" and dat: "row_data ?r = [PInt 1, PInt 2, PInt 3]"
    and cls: "row_class ?r = Row"
    by (simp_all add: BaseRow_len_def example_row_def)
  note T = strict_subscription [of 0 ?r "- 1" 3 "Some 1" "Some 1" "Some 3" 1 3 None None
      "''a''" 0 "KVal (PStr ''a'')"]
  have 1: "Row_getitem ?r (KVal (PInt 0)) = Inr (PInt 1)"
    using T len dat by simp
  have 2: "Row_getitem ?r (KVal (PInt (- 1))) = Inr (PInt 3)"
    using T len dat by simp
  have 3: "Row_getitem ?r (KVal (PInt 3)) = Inl IndexError"
    using T len by simp
  have 4: "Row_getitem ?r (KSlice (Some 1) (Some 3) None) = Inr (PTuple [PInt 2, PInt 3])"
    using T len dat by simp
  have 5: "Row_getitem ?r (KVal (PStr ''a'')) = Inl TypeError"
    using T by blast
  have 6: "row_getitem ?r (KVal (PStr ''a'')) = ([], Inl TypeError)"
    using T cls 5 by simp
  show ?thesis using 1 2 3 4 5 6 by blast
qed

section \<open>Comparison and hashing of rows\<close>






lemma py_richcmp_tuple_list: "py_richcmp op (PTuple xs) (PList ys) = unordered op False"
  by simp




end
